theory Spec2Isabelle
  imports Main "HOL-Library.AList"
begin

section \<open>Python values\<close>

text \<open>
  The documents kept on disk are JSON values. A Python \<open>dict\<close> keeps its keys in insertion
  order, so an object is an association list: \<open>d.get(k)\<close> is \<open>map_of d k\<close>, \<open>d[k] = v\<close>
  is \<open>AList.update k v d\<close> (an existing key keeps its place, a new one goes to the end) and
  \<open>d.pop(k, None)\<close> is \<open>map_of d k\<close> together with \<open>AList.delete k d\<close>.
\<close>

datatype json =
    JNull
  | JBool bool
  | JNum int
  | JStr string
  | JArr "json list"
  | JObj "(string \<times> json) list"

text \<open>
  The exceptions that the storage functions can raise: on a document of the wrong shape
  (\<open>TypeError\<close>, \<open>AttributeError\<close>) and while reading a file (\<open>UnicodeDecodeError\<close>,
  \<open>RecursionError\<close>).
\<close>

datatype py_error = TypeError | AttributeError | UnicodeDecodeError | RecursionError

section \<open>The JSON files\<close>

text \<open>
  A file is described by what \<open>ensure_json_file\<close> observes of it: \<open>path.exists()\<close> is
  false (\<open>Absent\<close>); \<open>json.load\<close> raises \<open>JSONDecodeError\<close> (\<open>Malformed\<close>); the bytes are
  not UTF-8 text, so that reading them raises \<open>UnicodeDecodeError\<close> (\<open>Undecodable\<close>); the
  text nests arrays or objects beyond the recursion limit, so that \<open>json.load\<close> raises
  \<open>RecursionError\<close> (\<open>Too_deep\<close>); or \<open>json.load\<close> returns a value (\<open>Document\<close>). Writing
  \<open>json.dumps(v)\<close> leaves a file that loads as \<open>v\<close>. Failures of the operating system
  (permissions, a full disk) are outside this model.
\<close>

datatype json_file = Absent | Malformed | Undecodable | Too_deep | Document json

text \<open>
  \<open>ensure_json_file\<close> returns the value loaded, or the exception that leaves it, and the
  file afterwards. The \<open>except\<close> clause names \<open>json.JSONDecodeError\<close> only: the two other
  exceptions reach the caller and the file stays as it is.
\<close>

definition ensure_json_file :: "json_file \<Rightarrow> json \<Rightarrow> (py_error + json) \<times> json_file" where
  "ensure_json_file path dflt =
     (case path of
        Absent \<Rightarrow> (Inr dflt, Document dflt)
      | Document v \<Rightarrow> (Inr v, Document v)
      | Malformed \<Rightarrow> (Inr dflt, Document dflt)
      | Undecodable \<Rightarrow> (Inl UnicodeDecodeError, Undecodable)
      | Too_deep \<Rightarrow> (Inl RecursionError, Too_deep))"

text \<open>
  The \<open>for ... else\<close> loop of \<open>save_credentials\<close>: the first entry whose \<open>client_id\<close> is the
  given one gets the new secret and the loop stops; when no entry matches, a new record is
  appended. \<open>entry.get\<close> on an entry that is not a dict raises \<open>AttributeError\<close>.
\<close>

fun upsert_entry :: "string \<Rightarrow> string \<Rightarrow> json list \<Rightarrow> py_error + json list" where
  "upsert_entry client_id client_secret [] =
     Inr [JObj [(''client_id'', JStr client_id), (''client_secret'', JStr client_secret)]]"
| "upsert_entry client_id client_secret (JObj entry # rest) =
     (if map_of entry ''client_id'' = Some (JStr client_id)
      then Inr (JObj (AList.update ''client_secret'' (JStr client_secret) entry) # rest)
      else (case upsert_entry client_id client_secret rest of
              Inl e \<Rightarrow> Inl e
            | Inr rest' \<Rightarrow> Inr (JObj entry # rest')))"
| "upsert_entry client_id client_secret (_ # rest) = Inl AttributeError"

text \<open>
  \<open>save_credentials\<close> returns the exception it raises, if any, and the file it leaves. An
  exception of \<open>ensure_json_file\<close> is not caught. A
  document that is not a list cannot be iterated (\<open>TypeError\<close>), or is iterated over strings
  and has no \<open>append\<close> (\<open>AttributeError\<close>); the file is written only when the loop ends.
\<close>

definition save_credentials :: "string \<Rightarrow> string \<Rightarrow> json_file \<Rightarrow> (py_error + unit) \<times> json_file" where
  "save_credentials client_id client_secret path =
     (case ensure_json_file path (JArr []) of
        (Inl e, path') \<Rightarrow> (Inl e, path')
      | (Inr (JArr entries), path') \<Rightarrow>
          (case upsert_entry client_id client_secret entries of
             Inl e \<Rightarrow> (Inl e, path')
           | Inr entries' \<Rightarrow> (Inr (), Document (JArr entries')))
      | (Inr (JObj _), path') \<Rightarrow> (Inl AttributeError, path')
      | (Inr (JStr _), path') \<Rightarrow> (Inl AttributeError, path')
      | (Inr _, path') \<Rightarrow> (Inl TypeError, path'))"

definition load_tokens :: "json_file \<Rightarrow> (py_error + json) \<times> json_file" where
  "load_tokens path = ensure_json_file path (JObj [])"

text \<open>
  \<open>tokens[client_id] = token\<close> raises \<open>TypeError\<close> on a document that is not a dict; an
  exception of \<open>ensure_json_file\<close> leaves \<open>save_token\<close> as it leaves \<open>save_credentials\<close>.
\<close>

definition save_token :: "string \<Rightarrow> json \<Rightarrow> json_file \<Rightarrow> (py_error + unit) \<times> json_file" where
  "save_token client_id token path =
     (case ensure_json_file path (JObj []) of
        (Inl e, path') \<Rightarrow> (Inl e, path')
      | (Inr (JObj tokens), path') \<Rightarrow>
          (Inr (), Document (JObj (AList.update client_id token tokens)))
      | (Inr _, path') \<Rightarrow> (Inl TypeError, path'))"

section \<open>The process state\<close>

text \<open>
  The entry of \<open>_active_sessions\<close> for a client: the dict \<open>{"secret": ...}\<close>, to which
  \<open>auth_route\<close> adds the key \<open>"state"\<close>.
\<close>

record session =
  secret :: string
  state :: "string option"

text \<open>The texts passed to \<open>emit_log\<close>, with the values interpolated into them.\<close>

datatype log_message =
    Auth_without_client_id
  | Client_not_registered
  | Opening_browser string
  | Provider_error "string option"
  | Callback_without_state
  | Session_not_found
  | Token_error string
  | Auth_success string

record log_record =
  is_status :: bool
  message :: log_message

text \<open>
  The module's globals, the token file, and the calls made to the outside: the URLs given to
  \<open>webbrowser.open\<close> (client id and state; the rest of the URL is constant) and the requests
  sent to the token endpoint by \<open>fetch_token\<close> (client id, client secret, state), oldest first.
\<close>

record world =
  gui_log_queue :: "log_record list option"
  active_sessions :: "(string \<times> session) list"
  state_to_client :: "(string \<times> string) list"
  tokens_file :: json_file
  browser_opened :: "(string \<times> string) list"
  token_requests :: "(string \<times> string \<times> string) list"

definition emit_log :: "log_message \<Rightarrow> bool \<Rightarrow> world \<Rightarrow> world" where
  "emit_log msg status w =
     (case gui_log_queue w of
        None \<Rightarrow> w
      | Some q \<Rightarrow> w\<lparr>gui_log_queue := Some (q @ [\<lparr>is_status = status, message = msg\<rparr>])\<rparr>)"

definition register_session :: "string \<Rightarrow> string \<Rightarrow> world \<Rightarrow> world" where
  "register_session client_id client_secret w =
     (let sessions = AList.update client_id \<lparr>secret = client_secret, state = None\<rparr> (active_sessions w);
          stale_states = map fst (filter (\<lambda>(key, val). val = client_id) (state_to_client w))
      in w\<lparr>active_sessions := sessions,
           state_to_client := fold AList.delete stale_states (state_to_client w)\<rparr>)"

section \<open>The HTTP handlers\<close>

text \<open>
  \<open>str.isspace\<close> on the code points below 256, and \<open>str.strip()\<close>, which removes such
  characters from both ends.
\<close>

definition py_isspace :: "char \<Rightarrow> bool" where
  "py_isspace c =
     (let n = (of_char c :: nat)
      in (9 \<le> n \<and> n \<le> 13) \<or> (28 \<le> n \<and> n \<le> 32) \<or> n = 133 \<or> n = 160)"

definition strip :: "string \<Rightarrow> string" where
  "strip s = rev (dropWhile py_isspace (rev (dropWhile py_isspace s)))"

text \<open>The bodies of the responses; the status code is the second component of a response.\<close>

datatype body =
    Json_error_missing_client_id
  | Json_error_not_registered
  | Json_message_started
  | Html_auth_failed "string option"
  | Html_no_state
  | Html_session_not_found
  | Html_token_failed
  | Html_completed

type_synonym response = "body \<times> nat"

text \<open>
  The query string is the list of its pairs: \<open>request.args.get(k)\<close> is the first value of
  \<open>k\<close>, \<open>k in request.args\<close> holds when there is one.
\<close>

type_synonym args = "(string \<times> string) list"

text \<open>
  The second locked block of \<open>auth_route\<close>: the session found for the client gets the state,
  and the state is entered in the reverse index.
\<close>

definition assign_state :: "string \<Rightarrow> session \<Rightarrow> string \<Rightarrow> world \<Rightarrow> world" where
  "assign_state client_id session_info st w =
     w\<lparr>active_sessions := AList.update client_id (session_info\<lparr>state := Some st\<rparr>) (active_sessions w),
       state_to_client := AList.update st client_id (state_to_client w)\<rparr>"

text \<open>
  \<open>auth_route\<close>; \<open>st\<close> is the state that \<open>oauth.authorization_url\<close> generates for this
  request.
\<close>

definition auth_route :: "args \<Rightarrow> string \<Rightarrow> world \<Rightarrow> response \<times> world" where
  "auth_route request_args st w =
     (let client_id = strip (case map_of request_args ''client_id'' of None \<Rightarrow> [] | Some v \<Rightarrow> v)
      in if client_id = []
         then ((Json_error_missing_client_id, 400), emit_log Auth_without_client_id False w)
         else (case map_of (active_sessions w) client_id of
                 None \<Rightarrow> ((Json_error_not_registered, 400), emit_log Client_not_registered False w)
               | Some session_info \<Rightarrow>
                   (let w1 = assign_state client_id session_info st w;
                        w2 = w1\<lparr>browser_opened := browser_opened w1 @ [(client_id, st)]\<rparr>
                    in ((Json_message_started, 200), emit_log (Opening_browser client_id) False w2))))"

text \<open>
  The locked block of \<open>callback_route\<close> and the test that follows it: the state is popped
  from the index, and the session of the client it named is looked up. An absent or empty
  client id, or an absent session, is the not-found case.
\<close>

definition resolve_state :: "string \<Rightarrow> world \<Rightarrow> (string \<times> session) option \<times> world" where
  "resolve_state st w =
     (let client_id = map_of (state_to_client w) st;
          w1 = w\<lparr>state_to_client := AList.delete st (state_to_client w)\<rparr>
      in (case client_id of
            None \<Rightarrow> (None, w1)
          | Some c \<Rightarrow>
              (if c = [] then (None, w1)
               else (case map_of (active_sessions w1) c of
                       None \<Rightarrow> (None, w1)
                     | Some session_info \<Rightarrow> (Some (c, session_info), w1)))))"

definition error_description :: "args \<Rightarrow> string option" where
  "error_description request_args =
     (case map_of request_args ''error_description'' of
        None \<Rightarrow> map_of request_args ''error''
      | Some d \<Rightarrow> (if d = [] then map_of request_args ''error'' else Some d))"

text \<open>
  \<open>callback_route\<close>; \<open>fetched\<close> is what \<open>oauth.fetch_token\<close> does when it is called for this
  request: it raises an exception with a text, or returns a token. An exception of
  \<open>save_token\<close> is not caught by the handler and leaves it.
\<close>

definition callback_route :: "args \<Rightarrow> string + json \<Rightarrow> world \<Rightarrow> (py_error + response) \<times> world" where
  "callback_route request_args fetched w =
     (if map_of request_args ''error'' \<noteq> None
      then (Inr (Html_auth_failed (error_description request_args), 400),
            emit_log (Provider_error (error_description request_args)) False w)
      else (case map_of request_args ''state'' of
              None \<Rightarrow> (Inr (Html_no_state, 400), emit_log Callback_without_state False w)
            | Some st \<Rightarrow>
                (if st = []
                 then (Inr (Html_no_state, 400), emit_log Callback_without_state False w)
                 else (case resolve_state st w of
                         (None, w1) \<Rightarrow>
                           (Inr (Html_session_not_found, 400), emit_log Session_not_found False w1)
                       | (Some (client_id, session_info), w1) \<Rightarrow>
                           (let w2 = w1\<lparr>token_requests :=
                                          token_requests w1 @ [(client_id, secret session_info, st)]\<rparr>
                            in (case fetched of
                                  Inl exc \<Rightarrow>
                                    (Inr (Html_token_failed, 500), emit_log (Token_error exc) False w2)
                                | Inr token \<Rightarrow>
                                    (case save_token client_id token (tokens_file w2) of
                                       (Inl e, path') \<Rightarrow> (Inl e, w2\<lparr>tokens_file := path'\<rparr>)
                                     | (Inr _, path') \<Rightarrow>
                                         (let w3 = emit_log (Auth_success client_id) True
                                                     (w2\<lparr>tokens_file := path'\<rparr>)
                                          in (Inr (Html_completed, 200),
                                              w3\<lparr>active_sessions :=
                                                   AList.delete client_id (active_sessions w3)\<rparr>)))))))))"

section \<open>The invariant of the state index\<close>

text \<open>
  Every entry of the index names a client with a session whose \<open>state\<close> is the entry's key.
\<close>

definition state_index_consistent :: "world \<Rightarrow> bool" where
  "state_index_consistent w =
     list_all (\<lambda>(key, client_id).
                 case map_of (active_sessions w) client_id of
                   None \<Rightarrow> False
                 | Some s \<Rightarrow> state s = Some key)
              (state_to_client w)"

section \<open>Notions used to state the properties\<close>

text \<open>
  The records of a credential document that belong to a client: the entries that the loop of
  \<open>save_credentials\<close> recognises by \<open>entry.get("client_id") == client_id\<close>.
\<close>

definition is_dict :: "json \<Rightarrow> bool" where
  "is_dict e = (case e of JObj _ \<Rightarrow> True | _ \<Rightarrow> False)"

definition records_for :: "string \<Rightarrow> json list \<Rightarrow> json list" where
  "records_for client_id entries =
     filter (\<lambda>e. case e of
                   JObj entry \<Rightarrow> map_of entry ''client_id'' = Some (JStr client_id)
                 | _ \<Rightarrow> False) entries"

definition client_secret_of :: "json \<Rightarrow> json option" where
  "client_secret_of e = (case e of JObj entry \<Rightarrow> map_of entry ''client_secret'' | _ \<Rightarrow> None)"

text \<open>
  The globals as the module initialises them (no log queue, both dicts empty), with no token
  file on disk and no call made yet.
\<close>

definition module_start :: world where
  "module_start =
     \<lparr>gui_log_queue = None, active_sessions = [], state_to_client = [],
      tokens_file = Absent, browser_opened = [], token_requests = []\<rparr>"

text \<open>
  Two runs used as examples. In the first the application has registered the client \<open>abc\<close>
  and \<open>/auth\<close> has been requested once, the state generated being \<open>s1\<close>. In the second
  \<open>/auth\<close> has been requested once more for the same client, the state generated being \<open>s2\<close>.
\<close>

definition awaiting_callback :: world where
  "awaiting_callback =
     snd (auth_route [(''client_id'', ''abc'')] ''s1''
            (register_session ''abc'' ''sec'' module_start))"

definition twice_authorised :: world where
  "twice_authorised = snd (auth_route [(''client_id'', ''abc'')] ''s2'' awaiting_callback)"

section \<open>Auxiliary facts\<close>

lemma emit_log_fields:
  "active_sessions (emit_log m s w) = active_sessions w"
  "state_to_client (emit_log m s w) = state_to_client w"
  "tokens_file (emit_log m s w) = tokens_file w"
  "browser_opened (emit_log m s w) = browser_opened w"
  "token_requests (emit_log m s w) = token_requests w"
  by (simp_all add: emit_log_def split: option.splits)

lemma strip_all_space: "list_all py_isspace v \<Longrightarrow> strip v = []"
proof -
  assume "list_all py_isspace v"
  then have empty: "dropWhile py_isspace v = []"
    by (induction v) simp_all
  show ?thesis
    unfolding strip_def empty by simp
qed

lemma is_dict_JObj: "is_dict (JObj entry)"
  by (simp add: is_dict_def)

lemma is_dictE: "is_dict e \<Longrightarrow> \<exists>entry. e = JObj entry"
  by (cases e) (simp_all add: is_dict_def)

text \<open>
  On a list of dicts with at most one record for the client, the loop succeeds and leaves
  exactly one record for the client, carrying the new secret.
\<close>

lemma upsert_entry_single:
  "list_all is_dict entries \<Longrightarrow> length (records_for client_id entries) \<le> 1 \<Longrightarrow>
   \<exists>entries'. upsert_entry client_id client_secret entries = Inr entries'
     \<and> list_all is_dict entries'
     \<and> map client_secret_of (records_for client_id entries') = [Some (JStr client_secret)]"
proof (induction entries)
  case Nil
  then show ?case
    by (simp add: is_dict_JObj records_for_def client_secret_of_def)
next
  case (Cons e entries)
  from Cons.prems(1) obtain entry where e: "e = JObj entry"
    using is_dictE [of e] by auto
  show ?case
  proof (cases "map_of entry ''client_id'' = Some (JStr client_id)")
    case True
    with Cons.prems(2) e have none: "records_for client_id entries = []"
      by (simp add: records_for_def)
    have keep: "map_of (AList.update ''client_secret'' (JStr client_secret) entry) ''client_id''
                  = Some (JStr client_id)"
      using True by (simp add: update_conv')
    have "upsert_entry client_id client_secret (e # entries)
            = Inr (JObj (AList.update ''client_secret'' (JStr client_secret) entry) # entries)"
      using True e by simp
    moreover have "list_all is_dict
                     (JObj (AList.update ''client_secret'' (JStr client_secret) entry) # entries)"
      using Cons.prems(1) by (simp add: is_dict_JObj)
    moreover have "map client_secret_of
                     (records_for client_id
                        (JObj (AList.update ''client_secret'' (JStr client_secret) entry) # entries))
                   = [Some (JStr client_secret)]"
      using none keep by (simp add: records_for_def client_secret_of_def update_conv')
    ultimately show ?thesis by simp
  next
    case False
    with Cons.prems e have "list_all is_dict entries" "length (records_for client_id entries) \<le> 1"
      by (simp_all add: records_for_def)
    with Cons.IH obtain entries' where
      r: "upsert_entry client_id client_secret entries = Inr entries'"
      and d: "list_all is_dict entries'"
      and m: "map client_secret_of (records_for client_id entries') = [Some (JStr client_secret)]"
      by auto
    have "upsert_entry client_id client_secret (e # entries) = Inr (e # entries')"
      using False e r by simp
    moreover have "list_all is_dict (e # entries')"
      using d e by (simp add: is_dict_JObj)
    moreover have "map client_secret_of (records_for client_id (e # entries'))
                   = [Some (JStr client_secret)]"
      using False e m by (simp add: records_for_def)
    ultimately show ?thesis by simp
  qed
qed

text \<open>
  The number of records of each client after the loop: one at least for the client saved,
  unchanged for every other. A document without duplicates stays without duplicates.
\<close>

lemma upsert_entry_count:
  "list_all is_dict entries \<Longrightarrow> upsert_entry client_id client_secret entries = Inr entries' \<Longrightarrow>
   length (records_for other entries') =
     (if other = client_id then max 1 (length (records_for client_id entries))
      else length (records_for other entries))"
proof (induction entries arbitrary: entries')
  case Nil
  then show ?case by (auto simp: records_for_def)
next
  case (Cons e entries)
  from Cons.prems(1) obtain entry where e: "e = JObj entry"
    using is_dictE [of e] by auto
  show ?case
  proof (cases "map_of entry ''client_id'' = Some (JStr client_id)")
    case True
    with Cons.prems e show ?thesis
      by (auto simp: records_for_def update_conv')
  next
    case False
    with Cons.prems e obtain rest' where
      r: "upsert_entry client_id client_secret entries = Inr rest'" and e': "entries' = e # rest'"
      by (auto split: sum.splits)
    from Cons.prems(1) have "list_all is_dict entries" by simp
    from Cons.IH [OF this r] False e e' show ?thesis
      by (auto simp: records_for_def)
  qed
qed

section \<open>Storage\<close>

text \<open>
  What holds of the two cases that \<open>ensure_json_file\<close> handles: a file that is missing,
  or that \<open>json.load\<close> rejects with \<open>JSONDecodeError\<close>, is loaded without exception; the
  load returns the default, leaves the file holding it, and a second load returns it again.
\<close>

lemma ensure_json_file_resets:
  assumes "path = Absent \<or> path = Malformed"
  shows "ensure_json_file path dflt = (Inr dflt, Document dflt)
       \<and> ensure_json_file (snd (ensure_json_file path dflt)) dflt = (Inr dflt, Document dflt)
       \<and> load_tokens path = (Inr (JObj []), Document (JObj []))
       \<and> load_tokens (snd (load_tokens path)) = (Inr (JObj []), Document (JObj []))"
  using assms by (auto simp: ensure_json_file_def load_tokens_def)

text \<open>
  Claim C5. The claim fails on files that cannot be read as JSON for another reason than a
  syntax error. On a credential or token file whose bytes are not UTF-8 text the load raises
  \<open>UnicodeDecodeError\<close> to its caller (\<open>save_credentials\<close>, \<open>load_tokens\<close> and \<open>save_token\<close>
  raise it in turn), no default is returned, and the file is left as it was, so that the next
  load raises again. The same holds, with \<open>RecursionError\<close>, of a file nested too deeply.
\<close>

theorem ensure_json_file_raises_on_unreadable:
  "ensure_json_file Undecodable (JArr []) = (Inl UnicodeDecodeError, Undecodable)
   \<and> save_credentials ''abc'' ''sec'' Undecodable = (Inl UnicodeDecodeError, Undecodable)
   \<and> load_tokens Undecodable = (Inl UnicodeDecodeError, Undecodable)
   \<and> load_tokens (snd (load_tokens Undecodable)) = (Inl UnicodeDecodeError, Undecodable)
   \<and> save_token ''abc'' (JObj []) Undecodable = (Inl UnicodeDecodeError, Undecodable)
   \<and> ensure_json_file Too_deep (JArr []) = (Inl RecursionError, Too_deep)
   \<and> load_tokens Too_deep = (Inl RecursionError, Too_deep)"
  by (simp add: ensure_json_file_def load_tokens_def save_credentials_def save_token_def)

text \<open>
  Claim C6. Saving \<open>(id, secretA)\<close> and then \<open>(id, secretB)\<close> succeeds and leaves a credential
  document with exactly one record for \<open>id\<close>, whose secret is \<open>secretB\<close>. The document before
  the two saves is any that the program itself can have written: missing, rejected by
  \<open>json.load\<close>, or a list of records with at most one record for \<open>id\<close>.
\<close>

theorem save_credentials_last_writer_wins:
  assumes "fst (ensure_json_file path (JArr [])) = Inr (JArr entries)"
    and "list_all is_dict entries"
    and "length (records_for client_id entries) \<le> 1"
  shows "\<exists>entries''.
           fst (save_credentials client_id secretA path) = Inr ()
         \<and> save_credentials client_id secretB (snd (save_credentials client_id secretA path))
             = (Inr (), Document (JArr entries''))
         \<and> map client_secret_of (records_for client_id entries'') = [Some (JStr secretB)]"
proof -
  from upsert_entry_single [OF assms(2,3), of secretA] obtain entries' where
    r1: "upsert_entry client_id secretA entries = Inr entries'"
    and d1: "list_all is_dict entries'"
    and m1: "map client_secret_of (records_for client_id entries') = [Some (JStr secretA)]"
    by auto
  have s1: "save_credentials client_id secretA path = (Inr (), Document (JArr entries'))"
    using assms(1) r1
    by (cases "ensure_json_file path (JArr [])") (simp add: save_credentials_def)
  from m1 have "length (map client_secret_of (records_for client_id entries')) = 1"
    by simp
  then have l1: "length (records_for client_id entries') \<le> 1"
    by simp
  from upsert_entry_single [OF d1 l1, of secretB] obtain entries'' where
    r2: "upsert_entry client_id secretB entries' = Inr entries''"
    and m2: "map client_secret_of (records_for client_id entries'') = [Some (JStr secretB)]"
    by auto
  have s2: "save_credentials client_id secretB (Document (JArr entries'))
              = (Inr (), Document (JArr entries''))"
    using r2 by (simp add: save_credentials_def ensure_json_file_def)
  show ?thesis
    using s1 s2 m2 by simp
qed

theorem save_credentials_last_writer_wins_witness:
  "\<exists>entries''.
     fst (save_credentials ''abc'' ''secretA''
            (Document (JArr [JObj [(''client_id'', JStr ''abc''), (''client_secret'', JStr ''old'')],
                             JObj [(''client_id'', JStr ''xyz''), (''client_secret'', JStr ''s'')]])))
       = Inr ()
   \<and> save_credentials ''abc'' ''secretB''
        (snd (save_credentials ''abc'' ''secretA''
            (Document (JArr [JObj [(''client_id'', JStr ''abc''), (''client_secret'', JStr ''old'')],
                             JObj [(''client_id'', JStr ''xyz''), (''client_secret'', JStr ''s'')]]))))
       = (Inr (), Document (JArr entries''))
   \<and> map client_secret_of (records_for ''abc'' entries'') = [Some (JStr ''secretB'')]"
  using save_credentials_last_writer_wins
    [of "Document (JArr [JObj [(''client_id'', JStr ''abc''), (''client_secret'', JStr ''old'')],
                         JObj [(''client_id'', JStr ''xyz''), (''client_secret'', JStr ''s'')]])"
        "[JObj [(''client_id'', JStr ''abc''), (''client_secret'', JStr ''old'')],
          JObj [(''client_id'', JStr ''xyz''), (''client_secret'', JStr ''s'')]]"
        "''abc''" "''secretA''" "''secretB''"]
  by (simp add: ensure_json_file_def is_dict_JObj records_for_def)

text \<open>
  Claim C10. When the token store holds a mapping \<open>prior\<close> (the file is missing or rejected
  by \<open>json.load\<close>, where the mapping is empty, or it holds a JSON object), \<open>save_token\<close>
  succeeds, and loading the store afterwards yields \<open>prior\<close> with the entry of \<open>client_id\<close>
  set to the token: the record of every other client is the one it was.
\<close>

theorem save_token_frame:
  assumes "fst (load_tokens path) = Inr (JObj prior)"
  shows "fst (save_token client_id token path) = Inr ()
       \<and> fst (load_tokens (snd (save_token client_id token path)))
           = Inr (JObj (AList.update client_id token prior))
       \<and> map_of (AList.update client_id token prior) = (map_of prior)(client_id \<mapsto> token)"
  using assms
  by (cases path) (auto simp: load_tokens_def save_token_def ensure_json_file_def update_conv')

theorem save_token_frame_witness:
  "fst (save_token ''abc'' (JObj [(''access_token'', JStr ''T'')])
          (Document (JObj [(''abc'', JNull), (''xyz'', JStr ''kept'')]))) = Inr ()
   \<and> fst (load_tokens (snd (save_token ''abc'' (JObj [(''access_token'', JStr ''T'')])
          (Document (JObj [(''abc'', JNull), (''xyz'', JStr ''kept'')])))))
       = Inr (JObj [(''abc'', JObj [(''access_token'', JStr ''T'')]), (''xyz'', JStr ''kept'')])"
  using save_token_frame
    [of "Document (JObj [(''abc'', JNull), (''xyz'', JStr ''kept'')])"
        "[(''abc'', JNull), (''xyz'', JStr ''kept'')]"
        "''abc''" "JObj [(''access_token'', JStr ''T'')]"]
  by (simp add: load_tokens_def ensure_json_file_def)

section \<open>Requests that are rejected before the registry is read\<close>

text \<open>
  Claim C8. A request to \<open>/callback\<close> that carries an \<open>error\<close> parameter is answered with
  status 400, and both dicts of the registry are afterwards what they were: no session and
  no entry of the state index is added, removed or changed.
\<close>

theorem callback_error_keeps_registry:
  assumes "map_of request_args ''error'' = Some e"
  shows "fst (callback_route request_args fetched w)
           = Inr (Html_auth_failed (error_description request_args), 400)
       \<and> active_sessions (snd (callback_route request_args fetched w)) = active_sessions w
       \<and> state_to_client (snd (callback_route request_args fetched w)) = state_to_client w"
  using assms by (simp add: callback_route_def emit_log_fields)

theorem callback_error_keeps_registry_witness:
  "fst (callback_route [(''error'', ''access_denied''), (''state'', ''s1'')] (Inl ''unused'')
          (snd (auth_route [(''client_id'', ''abc'')] ''s1''
                  (register_session ''abc'' ''sec'' module_start))))
     = Inr (Html_auth_failed (Some ''access_denied''), 400)
   \<and> state_to_client (snd (callback_route [(''error'', ''access_denied''), (''state'', ''s1'')]
          (Inl ''unused'')
          (snd (auth_route [(''client_id'', ''abc'')] ''s1''
                  (register_session ''abc'' ''sec'' module_start)))))
     = [(''s1'', ''abc'')]"
  using callback_error_keeps_registry
    [of "[(''error'', ''access_denied''), (''state'', ''s1'')]" "''access_denied''"
        "Inl ''unused''"
        "snd (auth_route [(''client_id'', ''abc'')] ''s1''
                (register_session ''abc'' ''sec'' module_start))"]
  by (simp add: error_description_def auth_route_def strip_def py_isspace_def
        register_session_def module_start_def assign_state_def emit_log_def Let_def)

text \<open>
  Claim C9. A request to \<open>/auth\<close> whose \<open>client_id\<close> parameter is absent, empty or made of
  whitespace only is answered with status 400 and the JSON error body; the sessions, the
  state index and the list of browser windows opened are afterwards what they were.
\<close>

theorem auth_without_client_id_rejected:
  assumes "case map_of request_args ''client_id'' of None \<Rightarrow> True | Some v \<Rightarrow> list_all py_isspace v"
  shows "fst (auth_route request_args st w) = (Json_error_missing_client_id, 400)
       \<and> active_sessions (snd (auth_route request_args st w)) = active_sessions w
       \<and> state_to_client (snd (auth_route request_args st w)) = state_to_client w
       \<and> browser_opened (snd (auth_route request_args st w)) = browser_opened w"
proof -
  have "strip (case map_of request_args ''client_id'' of None \<Rightarrow> [] | Some v \<Rightarrow> v) = []"
  proof (cases "map_of request_args ''client_id''")
    case None
    then show ?thesis by (simp add: strip_def)
  next
    case (Some v)
    with assms show ?thesis by (simp add: strip_all_space)
  qed
  then show ?thesis
    by (simp add: auth_route_def emit_log_fields)
qed

theorem auth_without_client_id_rejected_witness:
  "fst (auth_route [(''client_id'', ''  '')] ''s1'' (register_session ''abc'' ''sec'' module_start))
     = (Json_error_missing_client_id, 400)
   \<and> state_to_client (snd (auth_route [(''client_id'', ''  '')] ''s1''
                             (register_session ''abc'' ''sec'' module_start))) = []
   \<and> browser_opened (snd (auth_route [(''client_id'', ''  '')] ''s1''
                             (register_session ''abc'' ''sec'' module_start))) = []"
  using auth_without_client_id_rejected
    [of "[(''client_id'', ''  '')]" "''s1''" "register_session ''abc'' ''sec'' module_start"]
  by (simp add: py_isspace_def register_session_def module_start_def Let_def)

section \<open>Facts about the handlers\<close>

lemma resolve_state_world:
  "snd (resolve_state st w) = w\<lparr>state_to_client := AList.delete st (state_to_client w)\<rparr>"
  by (simp add: resolve_state_def Let_def split: option.splits)

lemma resolve_state_result:
  "fst (resolve_state st w) =
     (case map_of (state_to_client w) st of
        None \<Rightarrow> None
      | Some c \<Rightarrow> (if c = [] then None
                   else (case map_of (active_sessions w) c of
                           None \<Rightarrow> None
                         | Some s \<Rightarrow> Some (c, s))))"
  by (simp add: resolve_state_def Let_def split: option.splits)

lemma resolve_state_unindexed:
  "map_of (state_to_client w) st = None \<Longrightarrow> fst (resolve_state st w) = None"
  by (simp add: resolve_state_result)

lemma callback_route_unresolved:
  assumes "map_of request_args ''error'' = None"
    and "map_of request_args ''state'' = Some st" and "st \<noteq> []"
    and "fst (resolve_state st w) = None"
  shows "callback_route request_args fetched w =
           (Inr (Html_session_not_found, 400),
            emit_log Session_not_found False (snd (resolve_state st w)))"
  using assms by (cases "resolve_state st w") (simp add: callback_route_def)

lemma callback_route_exchange_failed:
  assumes "map_of request_args ''error'' = None"
    and "map_of request_args ''state'' = Some st" and "st \<noteq> []"
    and "fst (resolve_state st w) = Some (c, s)"
  shows "callback_route request_args (Inl exc) w =
           (Inr (Html_token_failed, 500),
            emit_log (Token_error exc) False
              ((snd (resolve_state st w))
                 \<lparr>token_requests := token_requests w @ [(c, secret s, st)]\<rparr>))"
proof -
  obtain w1 where w1: "resolve_state st w = (Some (c, s), w1)"
    using assms(4) by (cases "resolve_state st w") simp
  have rq: "token_requests w1 = token_requests w"
    using resolve_state_world [of st w] w1 by simp
  show ?thesis
    using assms w1 rq by (simp add: callback_route_def Let_def)
qed

lemma callback_route_index:
  assumes "map_of request_args ''error'' = None"
    and "map_of request_args ''state'' = Some st" and "st \<noteq> []"
  shows "state_to_client (snd (callback_route request_args fetched w))
           = AList.delete st (state_to_client w)"
proof (cases "fst (resolve_state st w)")
  case None
  with assms show ?thesis
    by (simp add: callback_route_unresolved emit_log_fields resolve_state_world)
next
  case (Some r)
  obtain c s where r: "r = (c, s)" by (cases r)
  obtain w1 where w1: "resolve_state st w = (Some (c, s), w1)"
    using Some r by (cases "resolve_state st w") simp
  have idx: "state_to_client w1 = AList.delete st (state_to_client w)"
    using resolve_state_world [of st w] w1 by simp
  show ?thesis
    using assms w1 idx
    by (cases fetched; cases "save_token c (projr fetched) (tokens_file w1)";
        cases "fst (save_token c (projr fetched) (tokens_file w1))")
       (simp_all add: callback_route_def Let_def emit_log_fields)
qed

lemma callback_route_requests:
  assumes "map_of request_args ''error'' = None"
    and "map_of request_args ''state'' = Some st" and "st \<noteq> []"
    and "fst (resolve_state st w) = Some (c, s)"
  shows "token_requests (snd (callback_route request_args fetched w))
           = token_requests w @ [(c, secret s, st)]"
proof -
  obtain w1 where w1: "resolve_state st w = (Some (c, s), w1)"
    using assms(4) by (cases "resolve_state st w") simp
  have rq: "token_requests w1 = token_requests w"
    using resolve_state_world [of st w] w1 by simp
  show ?thesis
    using assms w1 rq
    by (cases fetched; cases "save_token c (projr fetched) (tokens_file w1)";
        cases "fst (save_token c (projr fetched) (tokens_file w1))")
       (simp_all add: callback_route_def Let_def emit_log_fields)
qed

lemma map_of_fold_delete:
  "map_of (fold AList.delete ks al) k = (if k \<in> set ks then None else map_of al k)"
  by (induction ks arbitrary: al) (auto simp: delete_conv')

lemma register_session_prunes:
  "map_of (state_to_client (register_session client_id client_secret w)) key \<noteq> Some client_id"
proof
  assume a: "map_of (state_to_client (register_session client_id client_secret w)) key = Some client_id"
  let ?stale = "map fst (filter (\<lambda>(key, val). val = client_id) (state_to_client w))"
  from a have "map_of (fold AList.delete ?stale (state_to_client w)) key = Some client_id"
    by (simp add: register_session_def Let_def)
  then have notin: "key \<notin> set ?stale" and m: "map_of (state_to_client w) key = Some client_id"
    by (simp_all add: map_of_fold_delete split: if_splits)
  from m have "(key, client_id) \<in> set (state_to_client w)"
    by (rule map_of_SomeD)
  then have "key \<in> set ?stale"
    by force
  with notin show False by simp
qed

lemma register_session_fields:
  "active_sessions (register_session c s w) = AList.update c \<lparr>secret = s, state = None\<rparr> (active_sessions w)"
  "tokens_file (register_session c s w) = tokens_file w"
  "browser_opened (register_session c s w) = browser_opened w"
  "token_requests (register_session c s w) = token_requests w"
  "gui_log_queue (register_session c s w) = gui_log_queue w"
  by (simp_all add: register_session_def Let_def)

lemma auth_route_accepted:
  assumes "map_of request_args ''client_id'' = Some client_id"
    and "client_id \<noteq> []" and "strip client_id = client_id"
    and "map_of (active_sessions w) client_id = Some session_info"
  shows "auth_route request_args st w =
           ((Json_message_started, 200),
            emit_log (Opening_browser client_id) False
              ((assign_state client_id session_info st w)
                 \<lparr>browser_opened := browser_opened w @ [(client_id, st)]\<rparr>))"
  using assms by (simp add: auth_route_def Let_def assign_state_def)

lemma register_session_forgets:
  assumes "map_of (state_to_client w) st = Some client_id"
  shows "map_of (state_to_client (register_session client_id client_secret w)) st = None"
proof -
  from assms have "(st, client_id) \<in> set (state_to_client w)"
    by (rule map_of_SomeD)
  then have "st \<in> set (map fst (filter (\<lambda>(key, val). val = client_id) (state_to_client w)))"
    by force
  then show ?thesis
    by (simp add: register_session_def Let_def map_of_fold_delete)
qed

lemma auth_route_after_register:
  assumes "map_of request_args ''client_id'' = Some client_id"
    and "client_id \<noteq> []" and "strip client_id = client_id"
  shows "auth_route request_args st (register_session client_id client_secret w) =
           ((Json_message_started, 200),
            emit_log (Opening_browser client_id) False
              ((assign_state client_id \<lparr>secret = client_secret, state = None\<rparr> st
                  (register_session client_id client_secret w))
                 \<lparr>browser_opened := browser_opened w @ [(client_id, st)]\<rparr>))"
proof -
  have "map_of (active_sessions (register_session client_id client_secret w)) client_id
          = Some \<lparr>secret = client_secret, state = None\<rparr>"
    by (simp add: register_session_fields update_conv')
  from auth_route_accepted [OF assms this] show ?thesis
    by (simp add: register_session_fields)
qed

lemma awaiting_callback_value:
  "awaiting_callback =
     \<lparr>gui_log_queue = None,
      active_sessions = [(''abc'', \<lparr>secret = ''sec'', state = Some ''s1''\<rparr>)],
      state_to_client = [(''s1'', ''abc'')],
      tokens_file = Absent,
      browser_opened = [(''abc'', ''s1'')],
      token_requests = []\<rparr>"
  by (simp add: awaiting_callback_def auth_route_def strip_def py_isspace_def
        register_session_def module_start_def assign_state_def emit_log_def Let_def)

lemma twice_authorised_value:
  "twice_authorised =
     \<lparr>gui_log_queue = None,
      active_sessions = [(''abc'', \<lparr>secret = ''sec'', state = Some ''s2''\<rparr>)],
      state_to_client = [(''s1'', ''abc''), (''s2'', ''abc'')],
      tokens_file = Absent,
      browser_opened = [(''abc'', ''s1''), (''abc'', ''s2'')],
      token_requests = []\<rparr>"
  by (simp add: twice_authorised_def awaiting_callback_value auth_route_def strip_def
        py_isspace_def assign_state_def emit_log_def Let_def)

section \<open>Preservation of the invariant\<close>

lemma state_index_consistent_iff:
  "state_index_consistent w \<longleftrightarrow>
     (\<forall>(key, client_id) \<in> set (state_to_client w).
        \<exists>s. map_of (active_sessions w) client_id = Some s \<and> state s = Some key)"
  by (auto simp: state_index_consistent_def list_all_iff split: option.splits)

lemma set_fold_delete:
  "set (fold AList.delete ks al) = {p \<in> set al. fst p \<notin> set ks}"
  by (induction ks arbitrary: al) (auto simp: AList.delete_eq)

lemma set_update_subset: "set (AList.update k v al) \<subseteq> insert (k, v) (set al)"
  by (induction al) auto

lemma set_delete_subset: "set (AList.delete k al) \<subseteq> {p \<in> set al. fst p \<noteq> k}"
  by (auto simp: AList.delete_eq)

text \<open>\<open>register_session\<close> keeps the invariant.\<close>

lemma register_session_consistent:
  assumes "state_index_consistent w"
  shows "state_index_consistent (register_session client_id client_secret w)"
  unfolding state_index_consistent_iff
proof (clarify)
  fix key c
  let ?stale = "map fst (filter (\<lambda>(key, val). val = client_id) (state_to_client w))"
  assume "(key, c) \<in> set (state_to_client (register_session client_id client_secret w))"
  then have mem: "(key, c) \<in> set (state_to_client w)" and fresh: "key \<notin> set ?stale"
    by (simp_all add: register_session_def Let_def set_fold_delete)
  have "c \<noteq> client_id"
  proof
    assume "c = client_id"
    with mem have "key \<in> set ?stale" by force
    with fresh show False by simp
  qed
  moreover from assms mem obtain s where
    "map_of (active_sessions w) c = Some s" "state s = Some key"
    unfolding state_index_consistent_iff by auto
  ultimately show "\<exists>s. map_of (active_sessions (register_session client_id client_secret w)) c = Some s
                     \<and> state s = Some key"
    by (simp add: register_session_fields update_conv')
qed

text \<open>
  \<open>auth_route\<close> keeps the invariant when the client it is asked for has no entry in the
  index yet.
\<close>

lemma auth_route_consistent:
  assumes "state_index_consistent w"
    and "strip (case map_of request_args ''client_id'' of None \<Rightarrow> [] | Some v \<Rightarrow> v)
           \<notin> snd ` set (state_to_client w)"
  shows "state_index_consistent (snd (auth_route request_args st w))"
proof -
  let ?c = "strip (case map_of request_args ''client_id'' of None \<Rightarrow> [] | Some v \<Rightarrow> v)"
  show ?thesis
  proof (cases "?c = [] \<or> map_of (active_sessions w) ?c = None")
    case True
    then have "active_sessions (snd (auth_route request_args st w)) = active_sessions w"
      and "state_to_client (snd (auth_route request_args st w)) = state_to_client w"
      by (auto simp: auth_route_def Let_def emit_log_fields)
    with assms(1) show ?thesis
      by (simp add: state_index_consistent_def)
  next
    case False
    then obtain session_info where s: "map_of (active_sessions w) ?c = Some session_info"
      and ne: "?c \<noteq> []"
      by auto
    have ses: "active_sessions (snd (auth_route request_args st w))
                 = AList.update ?c (session_info\<lparr>state := Some st\<rparr>) (active_sessions w)"
      and idx: "state_to_client (snd (auth_route request_args st w))
                 = AList.update st ?c (state_to_client w)"
      using s ne by (simp_all add: auth_route_def Let_def emit_log_fields assign_state_def)
    show ?thesis
      unfolding state_index_consistent_iff
    proof (clarify)
      fix key c
      assume "(key, c) \<in> set (state_to_client (snd (auth_route request_args st w)))"
      then have "(key, c) = (st, ?c) \<or> (key, c) \<in> set (state_to_client w)"
        using set_update_subset [of st ?c "state_to_client w"] by (auto simp: idx)
      then show "\<exists>s. map_of (active_sessions (snd (auth_route request_args st w))) c = Some s
                   \<and> state s = Some key"
      proof
        assume "(key, c) = (st, ?c)"
        then show ?thesis by (simp add: ses update_conv')
      next
        assume mem: "(key, c) \<in> set (state_to_client w)"
        with assms(2) have "c \<noteq> ?c" by force
        moreover from assms(1) mem obtain s' where
          "map_of (active_sessions w) c = Some s'" "state s' = Some key"
          unfolding state_index_consistent_iff by auto
        ultimately show ?thesis by (simp add: ses update_conv')
      qed
    qed
  qed
qed

text \<open>What \<open>callback_route\<close> can do to the two dicts.\<close>

lemma callback_route_registry:
  "(active_sessions (snd (callback_route request_args fetched w)) = active_sessions w
      \<and> state_to_client (snd (callback_route request_args fetched w)) = state_to_client w)
   \<or> (\<exists>st. active_sessions (snd (callback_route request_args fetched w)) = active_sessions w
        \<and> state_to_client (snd (callback_route request_args fetched w))
            = AList.delete st (state_to_client w))
   \<or> (\<exists>st c. map_of (state_to_client w) st = Some c
        \<and> active_sessions (snd (callback_route request_args fetched w))
            = AList.delete c (active_sessions w)
        \<and> state_to_client (snd (callback_route request_args fetched w))
            = AList.delete st (state_to_client w))"
  by (auto simp: callback_route_def resolve_state_def Let_def emit_log_fields
           split: option.splits sum.splits prod.splits if_splits)

text \<open>\<open>callback_route\<close> keeps the invariant.\<close>

lemma callback_route_consistent:
  assumes "state_index_consistent w"
  shows "state_index_consistent (snd (callback_route request_args fetched w))"
proof -
  let ?w' = "snd (callback_route request_args fetched w)"
  from callback_route_registry [of request_args fetched w]
  consider
    (same) "active_sessions ?w' = active_sessions w" "state_to_client ?w' = state_to_client w"
  | (popped) st where "active_sessions ?w' = active_sessions w"
      "state_to_client ?w' = AList.delete st (state_to_client w)"
  | (consumed) st c where "map_of (state_to_client w) st = Some c"
      "active_sessions ?w' = AList.delete c (active_sessions w)"
      "state_to_client ?w' = AList.delete st (state_to_client w)"
    by blast
  then show ?thesis
  proof cases
    case same
    with assms show ?thesis by (simp add: state_index_consistent_def)
  next
    case popped
    with assms show ?thesis
      using set_delete_subset [of st "state_to_client w"]
      unfolding state_index_consistent_iff by auto
  next
    case consumed
    from consumed(1) have "(st, c) \<in> set (state_to_client w)"
      by (rule map_of_SomeD)
    with assms obtain s where s: "map_of (active_sessions w) c = Some s" "state s = Some st"
      unfolding state_index_consistent_iff by auto
    show ?thesis
      unfolding state_index_consistent_iff
    proof (clarify)
      fix key c'
      assume "(key, c') \<in> set (state_to_client ?w')"
      then have mem: "(key, c') \<in> set (state_to_client w)" and key: "key \<noteq> st"
        using set_delete_subset [of st "state_to_client w"] by (auto simp: consumed(3))
      from assms mem obtain s' where s': "map_of (active_sessions w) c' = Some s'" "state s' = Some key"
        unfolding state_index_consistent_iff by auto
      with s key have "c' \<noteq> c" by auto
      with s' show "\<exists>s. map_of (active_sessions ?w') c' = Some s \<and> state s = Some key"
        by (simp add: consumed(2) delete_conv')
    qed
  qed
qed

section \<open>Callbacks\<close>

text \<open>
  Claim C7. A request to \<open>/callback\<close> without \<open>error\<close> parameter, whose \<open>state\<close> is not
  in the index or names a client that has no session, is answered with status 400 and the
  page "session not found"; no request is sent to the token endpoint and the token file is
  left as it was.
\<close>

theorem callback_unknown_state_rejected:
  assumes "map_of request_args ''error'' = None"
    and "map_of request_args ''state'' = Some st" and "st \<noteq> []"
    and "case map_of (state_to_client w) st of
           None \<Rightarrow> True
         | Some c \<Rightarrow> map_of (active_sessions w) c = None"
  shows "fst (callback_route request_args fetched w) = Inr (Html_session_not_found, 400)
       \<and> token_requests (snd (callback_route request_args fetched w)) = token_requests w
       \<and> tokens_file (snd (callback_route request_args fetched w)) = tokens_file w"
proof -
  have "fst (resolve_state st w) = None"
  proof (cases "map_of (state_to_client w) st")
    case None
    then show ?thesis by (simp add: resolve_state_result)
  next
    case (Some c)
    with assms(4) show ?thesis by (simp add: resolve_state_result)
  qed
  from callback_route_unresolved [OF assms(1-3) this] show ?thesis
    by (simp add: emit_log_fields resolve_state_world)
qed

theorem callback_unknown_state_rejected_witness:
  "fst (callback_route [(''state'', ''forged''), (''code'', ''XYZ'')] (Inr (JObj [])) awaiting_callback)
     = Inr (Html_session_not_found, 400)
   \<and> token_requests (snd (callback_route [(''state'', ''forged''), (''code'', ''XYZ'')]
                             (Inr (JObj [])) awaiting_callback)) = []
   \<and> tokens_file (snd (callback_route [(''state'', ''forged''), (''code'', ''XYZ'')]
                          (Inr (JObj [])) awaiting_callback)) = Absent"
  using callback_unknown_state_rejected
    [of "[(''state'', ''forged''), (''code'', ''XYZ'')]" "''forged''" awaiting_callback
        "Inr (JObj [])"]
  by (simp add: awaiting_callback_value)

text \<open>
  Claim C4. When the \<open>state\<close> of a request to \<open>/callback\<close> resolves to a session and
  \<open>fetch_token\<close> raises, the answer is the error page with status 500, the token file is left
  as it was, and the state is gone from the index: a later request with the same state is
  answered "session not found" with status 400, whatever the token endpoint would do, and
  still nothing is written to the token file.
\<close>

theorem callback_exchange_failure_consumes_state:
  assumes "map_of request_args ''error'' = None"
    and "map_of request_args ''state'' = Some st" and "st \<noteq> []"
    and "map_of (state_to_client w) st = Some client_id" and "client_id \<noteq> []"
    and "map_of (active_sessions w) client_id = Some session_info"
    and "map_of again ''error'' = None" and "map_of again ''state'' = Some st"
  shows "fst (callback_route request_args (Inl exc) w) = Inr (Html_token_failed, 500)
       \<and> tokens_file (snd (callback_route request_args (Inl exc) w)) = tokens_file w
       \<and> map_of (state_to_client (snd (callback_route request_args (Inl exc) w))) st = None
       \<and> fst (callback_route again fetched (snd (callback_route request_args (Inl exc) w)))
           = Inr (Html_session_not_found, 400)
       \<and> tokens_file (snd (callback_route again fetched
                              (snd (callback_route request_args (Inl exc) w)))) = tokens_file w"
proof -
  let ?w1 = "snd (callback_route request_args (Inl exc) w)"
  have resolved: "fst (resolve_state st w) = Some (client_id, session_info)"
    using assms(4-6) by (simp add: resolve_state_result)
  note first = callback_route_exchange_failed [OF assms(1-3) resolved, of exc]
  have r: "fst (callback_route request_args (Inl exc) w) = Inr (Html_token_failed, 500)"
    by (simp add: first)
  have t: "tokens_file ?w1 = tokens_file w"
    by (simp add: first emit_log_fields resolve_state_world)
  have "state_to_client ?w1 = AList.delete st (state_to_client w)"
    by (rule callback_route_index [OF assms(1-3)])
  then have gone: "map_of (state_to_client ?w1) st = None"
    by (simp add: delete_conv')
  then have "fst (resolve_state st ?w1) = None"
    by (rule resolve_state_unindexed)
  from callback_route_unresolved [OF assms(7,8,3) this, of fetched]
  have second: "fst (callback_route again fetched ?w1) = Inr (Html_session_not_found, 400)"
    and "tokens_file (snd (callback_route again fetched ?w1)) = tokens_file ?w1"
    by (simp_all add: emit_log_fields resolve_state_world)
  with r t gone show ?thesis by simp
qed

theorem callback_exchange_failure_consumes_state_witness:
  "fst (callback_route [(''state'', ''s1''), (''code'', ''XYZ'')] (Inl ''invalid_grant'')
          awaiting_callback) = Inr (Html_token_failed, 500)
   \<and> tokens_file (snd (callback_route [(''state'', ''s1''), (''code'', ''XYZ'')]
                          (Inl ''invalid_grant'') awaiting_callback)) = Absent
   \<and> fst (callback_route [(''state'', ''s1''), (''code'', ''XYZ'')] (Inr (JObj []))
            (snd (callback_route [(''state'', ''s1''), (''code'', ''XYZ'')]
                    (Inl ''invalid_grant'') awaiting_callback)))
       = Inr (Html_session_not_found, 400)"
  using callback_exchange_failure_consumes_state
    [of "[(''state'', ''s1''), (''code'', ''XYZ'')]" "''s1''" awaiting_callback "''abc''"
        "\<lparr>secret = ''sec'', state = Some ''s1''\<rparr>"
        "[(''state'', ''s1''), (''code'', ''XYZ'')]" "''invalid_grant''" "Inr (JObj [])"]
  by (simp add: awaiting_callback_value)

section \<open>The life of a state\<close>

text \<open>
  Claim C2. A client is registered with a secret and \<open>/auth\<close> assigns it the state \<open>st\<close>.
  The state then resolves to that client and that secret, which is what the request sent to
  the token endpoint by the first callback carries. After that callback, whatever its
  outcome, the state resolves to nothing: a second callback with \<open>st\<close> is answered "session
  not found" with status 400 and sends no request. The client id is one that \<open>/auth\<close>
  accepts, as the application passes it: not empty and without surrounding whitespace.
\<close>

theorem register_assign_resolve_once:
  assumes "map_of auth_args ''client_id'' = Some client_id"
    and "client_id \<noteq> []" and "strip client_id = client_id"
    and "map_of cb_args ''error'' = None"
    and "map_of cb_args ''state'' = Some st" and "st \<noteq> []"
    and "w_reg = register_session client_id client_secret w"
    and "(ans_auth, w_auth) = auth_route auth_args st w_reg"
    and "(ans_cb, w_cb) = callback_route cb_args fetched w_auth"
    and "(ans_again, w_end) = callback_route cb_args fetched' w_cb"
  shows "ans_auth = (Json_message_started, 200)
       \<and> fst (resolve_state st w_auth) = Some (client_id, \<lparr>secret = client_secret, state = Some st\<rparr>)
       \<and> token_requests w_cb = token_requests w @ [(client_id, client_secret, st)]
       \<and> fst (resolve_state st w_cb) = None
       \<and> ans_again = Inr (Html_session_not_found, 400)
       \<and> token_requests w_end = token_requests w_cb
       \<and> tokens_file w_end = tokens_file w_cb"
proof -
  note auth = auth_route_after_register [OF assms(1-3), of st client_secret w]
  from assms(7,8) auth have ans_auth: "ans_auth = (Json_message_started, 200)"
    by simp
  from assms(7,8) auth have idx_auth: "map_of (state_to_client w_auth) st = Some client_id"
    by (simp add: emit_log_fields assign_state_def update_conv')
  from assms(7,8) auth have ses_auth: "map_of (active_sessions w_auth) client_id
                                    = Some \<lparr>secret = client_secret, state = Some st\<rparr>"
    by (simp add: emit_log_fields assign_state_def update_conv')
  from assms(7,8) auth have rq_auth: "token_requests w_auth = token_requests w"
    by (simp add: emit_log_fields assign_state_def register_session_fields)
  have resolved: "fst (resolve_state st w_auth)
                    = Some (client_id, \<lparr>secret = client_secret, state = Some st\<rparr>)"
    using idx_auth ses_auth assms(2) by (simp add: resolve_state_result)
  from assms(9) have w_cb: "w_cb = snd (callback_route cb_args fetched w_auth)"
    by (cases "callback_route cb_args fetched w_auth") simp
  from callback_route_requests [OF assms(4-6) resolved, of fetched] rq_auth
  have rq_cb: "token_requests w_cb = token_requests w @ [(client_id, client_secret, st)]"
    by (simp add: w_cb)
  from callback_route_index [OF assms(4-6), of fetched w_auth]
  have "state_to_client w_cb = AList.delete st (state_to_client w_auth)"
    by (simp add: w_cb)
  then have "map_of (state_to_client w_cb) st = None"
    by (simp add: delete_conv')
  then have unresolved: "fst (resolve_state st w_cb) = None"
    by (rule resolve_state_unindexed)
  from callback_route_unresolved [OF assms(4-6) unresolved, of fetched'] assms(10)
  have "ans_again = Inr (Html_session_not_found, 400)"
    and "token_requests w_end = token_requests w_cb" and "tokens_file w_end = tokens_file w_cb"
    by (simp_all add: emit_log_fields resolve_state_world)
  with ans_auth resolved rq_cb unresolved show ?thesis
    by simp
qed

theorem register_assign_resolve_once_witness:
  "fst (resolve_state ''s1'' awaiting_callback)
     = Some (''abc'', \<lparr>secret = ''sec'', state = Some ''s1''\<rparr>)
   \<and> token_requests (snd (callback_route [(''state'', ''s1''), (''code'', ''XYZ'')]
                             (Inr (JObj [(''access_token'', JStr ''T'')])) awaiting_callback))
       = [(''abc'', ''sec'', ''s1'')]
   \<and> fst (callback_route [(''state'', ''s1''), (''code'', ''XYZ'')] (Inr (JObj []))
            (snd (callback_route [(''state'', ''s1''), (''code'', ''XYZ'')]
                    (Inr (JObj [(''access_token'', JStr ''T'')])) awaiting_callback)))
       = Inr (Html_session_not_found, 400)"
  using register_assign_resolve_once
    [where auth_args = "[(''client_id'', ''abc'')]" and client_id = "''abc''"
       and cb_args = "[(''state'', ''s1''), (''code'', ''XYZ'')]" and st = "''s1''"
       and w = module_start and client_secret = "''sec''"
       and w_reg = "register_session ''abc'' ''sec'' module_start"
       and ans_auth = "fst (auth_route [(''client_id'', ''abc'')] ''s1''
                              (register_session ''abc'' ''sec'' module_start))"
       and w_auth = awaiting_callback
       and fetched = "Inr (JObj [(''access_token'', JStr ''T'')])"
       and ans_cb = "fst (callback_route [(''state'', ''s1''), (''code'', ''XYZ'')]
                            (Inr (JObj [(''access_token'', JStr ''T'')])) awaiting_callback)"
       and w_cb = "snd (callback_route [(''state'', ''s1''), (''code'', ''XYZ'')]
                            (Inr (JObj [(''access_token'', JStr ''T'')])) awaiting_callback)"
       and fetched' = "Inr (JObj [])"
       and ans_again = "fst (callback_route [(''state'', ''s1''), (''code'', ''XYZ'')] (Inr (JObj []))
            (snd (callback_route [(''state'', ''s1''), (''code'', ''XYZ'')]
                    (Inr (JObj [(''access_token'', JStr ''T'')])) awaiting_callback)))"
       and w_end = "snd (callback_route [(''state'', ''s1''), (''code'', ''XYZ'')] (Inr (JObj []))
            (snd (callback_route [(''state'', ''s1''), (''code'', ''XYZ'')]
                    (Inr (JObj [(''access_token'', JStr ''T'')])) awaiting_callback)))"]
  by (simp add: awaiting_callback_def strip_def py_isspace_def module_start_def)

text \<open>
  Claim C3. A client is registered, \<open>/auth\<close> assigns it the state \<open>st\<close>, and the client is
  registered again before any callback. The state no longer resolves: a request to
  \<open>/callback\<close> with \<open>st\<close> is answered "session not found" with status 400, and neither the
  token endpoint nor the token file is touched. The client id is one that \<open>/auth\<close> accepts,
  as the application passes it: not empty and without surrounding whitespace.
\<close>

theorem second_register_invalidates_state:
  assumes "map_of auth_args ''client_id'' = Some client_id"
    and "client_id \<noteq> []" and "strip client_id = client_id"
    and "map_of cb_args ''error'' = None"
    and "map_of cb_args ''state'' = Some st" and "st \<noteq> []"
    and "w_reg = register_session client_id first_secret w"
    and "(ans_auth, w_auth) = auth_route auth_args st w_reg"
    and "w_again = register_session client_id second_secret w_auth"
    and "(ans_cb, w_cb) = callback_route cb_args fetched w_again"
  shows "ans_auth = (Json_message_started, 200)
       \<and> map_of (state_to_client w_auth) st = Some client_id
       \<and> fst (resolve_state st w_again) = None
       \<and> ans_cb = Inr (Html_session_not_found, 400)
       \<and> token_requests w_cb = token_requests w
       \<and> tokens_file w_cb = tokens_file w"
proof -
  note auth = auth_route_after_register [OF assms(1-3), of st first_secret w]
  from assms(7,8) auth have ans_auth: "ans_auth = (Json_message_started, 200)"
    by simp
  from assms(7,8) auth have idx_auth: "map_of (state_to_client w_auth) st = Some client_id"
    by (simp add: emit_log_fields assign_state_def update_conv')
  from assms(7,8) auth have keep_auth: "token_requests w_auth = token_requests w" "tokens_file w_auth = tokens_file w"
    by (simp_all add: emit_log_fields assign_state_def register_session_fields)
  from idx_auth assms(9) have "map_of (state_to_client w_again) st = None"
    by (simp add: register_session_forgets)
  then have unresolved: "fst (resolve_state st w_again) = None"
    by (rule resolve_state_unindexed)
  from callback_route_unresolved [OF assms(4-6) unresolved, of fetched] assms(10)
  have "ans_cb = Inr (Html_session_not_found, 400)"
    and "token_requests w_cb = token_requests w_again" and "tokens_file w_cb = tokens_file w_again"
    by (simp_all add: emit_log_fields resolve_state_world)
  with ans_auth idx_auth unresolved keep_auth assms(9) show ?thesis
    by (simp add: register_session_fields)
qed

theorem second_register_invalidates_state_witness:
  "map_of (state_to_client awaiting_callback) ''s1'' = Some ''abc''
   \<and> fst (callback_route [(''state'', ''s1''), (''code'', ''XYZ'')] (Inr (JObj []))
            (register_session ''abc'' ''new'' awaiting_callback))
       = Inr (Html_session_not_found, 400)
   \<and> token_requests (snd (callback_route [(''state'', ''s1''), (''code'', ''XYZ'')] (Inr (JObj []))
                             (register_session ''abc'' ''new'' awaiting_callback))) = []"
  using second_register_invalidates_state
    [where auth_args = "[(''client_id'', ''abc'')]" and client_id = "''abc''"
       and cb_args = "[(''state'', ''s1''), (''code'', ''XYZ'')]" and st = "''s1''"
       and w = module_start and first_secret = "''sec''" and second_secret = "''new''"
       and w_reg = "register_session ''abc'' ''sec'' module_start"
       and ans_auth = "fst (auth_route [(''client_id'', ''abc'')] ''s1''
                              (register_session ''abc'' ''sec'' module_start))"
       and w_auth = awaiting_callback
       and w_again = "register_session ''abc'' ''new'' awaiting_callback"
       and fetched = "Inr (JObj [])"
       and ans_cb = "fst (callback_route [(''state'', ''s1''), (''code'', ''XYZ'')] (Inr (JObj []))
                            (register_session ''abc'' ''new'' awaiting_callback))"
       and w_cb = "snd (callback_route [(''state'', ''s1''), (''code'', ''XYZ'')] (Inr (JObj []))
                            (register_session ''abc'' ''new'' awaiting_callback))"]
  by (simp add: awaiting_callback_def strip_def py_isspace_def module_start_def)

text \<open>
  Claim C1. The invariant holds after \<open>register_session\<close> and one request to \<open>/auth\<close>, and
  it is lost by a second request to \<open>/auth\<close> for the same client: the index keeps the
  first state \<open>s1\<close> for \<open>abc\<close>, while the session of \<open>abc\<close> records \<open>s2\<close>. The first state
  still resolves to the client. (\<open>register_session\<close> does remove the entries of the client,
  see \<open>register_session_prunes\<close>; \<open>auth_route\<close> does not.)
\<close>

theorem second_auth_leaves_stale_state:
  "state_index_consistent awaiting_callback
   \<and> state_to_client twice_authorised = [(''s1'', ''abc''), (''s2'', ''abc'')]
   \<and> map_of (active_sessions twice_authorised) ''abc'' = Some \<lparr>secret = ''sec'', state = Some ''s2''\<rparr>
   \<and> \<not> state_index_consistent twice_authorised
   \<and> fst (resolve_state ''s1'' twice_authorised)
       = Some (''abc'', \<lparr>secret = ''sec'', state = Some ''s2''\<rparr>)"
  by (simp add: twice_authorised_value awaiting_callback_value state_index_consistent_def
        resolve_state_def Let_def)

end
